theory Spec2Isabelle
  imports Complex_Main
begin

section \<open>Sentence search over a book (basic_examples.ipynb)\<close>

text \<open>
  The notebook segments a book into sentences with a pretrained language model, collects
  the sentence vectors and sentence texts into two parallel arrays, fits a
  nearest-neighbour index on the vectors, prints a window of sentences around each
  neighbour of a query, and defines a cosine similarity between two words.

  The language model, the nearest-neighbour index and the cosine distance are library
  objects. The embedding below covers the code of the notebook itself: the two arrays
  built from list comprehensions, the slice that cuts out the context window, and
  \<open>word_cosine_similarity\<close>. The scalars of the vectors are kept abstract (a type
  variable), so no property of rounding is assumed anywhere.
\<close>

text \<open>Python exceptions that the modelled code can meet.\<close>

datatype py_error = KeyError | ValueError

subsection \<open>Sentences and the two parallel arrays\<close>

text \<open>
  A sentence of \<open>full_doc.sents\<close>: the notebook reads its \<open>.text\<close> and its
  \<open>.vector\<close>.
\<close>

record 'a span =
  span_text :: string
  span_vector :: "'a list"

text \<open>
  \<open>np.array\<close> on a list of one-dimensional arrays: rows of one common width stack into
  a matrix, modelled as the list of its rows in order. Rows of unequal width do not form a
  matrix and are refused with \<open>ValueError\<close>. An empty list gives an array with no rows.
\<close>

definition np_array_rows :: "'a list list \<Rightarrow> py_error + 'a list list" where
  "np_array_rows rows =
     (if list_all (\<lambda>r. length r = length (hd rows)) rows then Inr rows else Inl ValueError)"




text \<open>
  \<^verbatim>\<open>svc = np.array([s.vector for s in bks])\<close> and
  \<^verbatim>\<open>stx = np.array([s.text for s in bks])\<close>.
  \<open>svc\<close> is the matrix handed to \<open>nnb.fit\<close>.
\<close>

definition svc :: "'a span list \<Rightarrow> py_error + 'a list list" where
  "svc bks = np_array_rows [span_vector s. s \<leftarrow> bks]"


subsection \<open>The context window\<close>

text \<open>
  Python's slice \<open>xs[lo:hi]\<close> with step 1: a negative bound counts from the end, and
  both bounds are then clamped into \<open>0..len(xs)\<close>. A slice never raises.
\<close>

definition slice_bound :: "int \<Rightarrow> int \<Rightarrow> int" where
  "slice_bound n b = (if b < 0 then max (b + n) 0 else min b n)"

definition py_slice :: "'a list \<Rightarrow> int \<Rightarrow> int \<Rightarrow> 'a list" where
  "py_slice xs lo hi =
     (let n = int (length xs); l = slice_bound n lo; h = slice_bound n hi
      in take (nat (h - l)) (drop (nat l) xs))"

text \<open>The literal \<open>3\<close> of \<^verbatim>\<open>stx[i : (i + 3)]\<close>.\<close>

definition context_size :: int where
  "context_size = 3"

text \<open>
  The body of the loop over the neighbours:
  \<^verbatim>\<open>t = [s for s in stx[i : (i + 3)]]\<close>.
\<close>

definition context_window :: "string list \<Rightarrow> int \<Rightarrow> string list" where
  "context_window sx i = [s. s \<leftarrow> py_slice sx i (i + context_size)]"

subsection \<open>Word similarity\<close>

text \<open>
  The arithmetic of the array scalars, kept abstract: the constants \<open>0\<close> and \<open>1\<close>,
  subtraction, multiplication, division, square root, and the mean of an array
  (\<open>np.average\<close>). Nothing is assumed about rounding or about the order in which a
  mean adds its terms.
\<close>

record 'a float_ops =
  f_zero :: 'a
  f_one :: 'a
  f_sub :: "'a \<Rightarrow> 'a \<Rightarrow> 'a"
  f_mul :: "'a \<Rightarrow> 'a \<Rightarrow> 'a"
  f_div :: "'a \<Rightarrow> 'a \<Rightarrow> 'a"
  f_sqrt :: "'a \<Rightarrow> 'a"
  f_average :: "'a list \<Rightarrow> 'a"

text \<open>
  The elementwise product \<open>u * v\<close> of two one-dimensional arrays: equal lengths multiply
  entry by entry, an array of length one is broadcast along the other, and any other pair
  of lengths raises \<open>ValueError\<close>.
\<close>

definition np_multiply :: "'a float_ops \<Rightarrow> 'a list \<Rightarrow> 'a list \<Rightarrow> py_error + 'a list" where
  "np_multiply ops u v =
     (if length u = length v then Inr (map2 (f_mul ops) u v)
      else if length u = 1 then Inr (map (\<lambda>y. f_mul ops (hd u) y) v)
      else if length v = 1 then Inr (map (\<lambda>x. f_mul ops x (hd v)) u)
      else Inl ValueError)"

definition np_square :: "'a float_ops \<Rightarrow> 'a list \<Rightarrow> 'a list" where
  "np_square ops u = map (\<lambda>x. f_mul ops x x) u"

text \<open>
  \<open>scipy.spatial.distance.cosine\<close>, which the notebook imports. It is the library's
  uncentred correlation distance
  \<^verbatim>\<open>uv = np.average(u * v); uu = np.average(np.square(u)); vv = np.average(np.square(v))\<close>,
  \<^verbatim>\<open>dist = 1.0 - uv / np.sqrt(uu * vv)\<close>,
  that is, one minus the cosine of the angle between \<open>u\<close> and \<open>v\<close>. A division by zero
  yields a value of the scalar type (a NaN), not an exception.
\<close>

definition cosine :: "'a float_ops \<Rightarrow> 'a list \<Rightarrow> 'a list \<Rightarrow> py_error + 'a" where
  "cosine ops u v =
     (case np_multiply ops u v of
        Inl e \<Rightarrow> Inl e
      | Inr p \<Rightarrow>
          (let uv = f_average ops p;
               uu = f_average ops (np_square ops u);
               vv = f_average ops (np_square ops v)
           in Inr (f_sub ops (f_one ops) (f_div ops uv (f_sqrt ops (f_mul ops uu vv))))))"

text \<open>
  The \<open>model\<close> argument of \<open>word_cosine_similarity\<close>: \<open>model.vocab[w]\<close> looks a word
  up and \<open>.vector\<close> reads the vector of the entry found. The vocabulary is a partial
  map; a word it does not hold is a failed lookup.
\<close>

record 'a lexeme =
  lexeme_vector :: "'a list"

record 'a language =
  vocab :: "string \<rightharpoonup> 'a lexeme"

text \<open>
  \<^verbatim>\<open>def word_cosine_similarity(w1, w2, model):\<close>
  \<^verbatim>\<open>    return 1 - cosine(model.vocab[w1].vector, model.vocab[w2].vector)\<close>
  The arguments are evaluated from left to right.
\<close>

definition word_cosine_similarity ::
  "'a float_ops \<Rightarrow> string \<Rightarrow> string \<Rightarrow> 'a language \<Rightarrow> py_error + 'a" where
  "word_cosine_similarity ops w1 w2 model =
     (case vocab model w1 of
        None \<Rightarrow> Inl KeyError
      | Some l1 \<Rightarrow>
          (case vocab model w2 of
             None \<Rightarrow> Inl KeyError
           | Some l2 \<Rightarrow>
               (case cosine ops (lexeme_vector l1) (lexeme_vector l2) of
                  Inl e \<Rightarrow> Inl e
                | Inr d \<Rightarrow> Inr (f_sub ops (f_one ops) d))))"

text \<open>
  One instance of the arithmetic, exact on the reals, and a vocabulary of two words,
  used to run the definitions on concrete inputs.
\<close>

definition real_ops :: "real float_ops" where
  "real_ops = \<lparr>f_zero = 0, f_one = 1, f_sub = (-), f_mul = (*), f_div = (/),
     f_sqrt = sqrt, f_average = (\<lambda>xs. sum_list xs / real (length xs))\<rparr>"

definition two_words :: "real language" where
  "two_words = \<lparr>vocab = [''farmer'' \<mapsto> \<lparr>lexeme_vector = [3, 4]\<rparr>,
                           ''framer'' \<mapsto> \<lparr>lexeme_vector = [4, 3]\<rparr>]\<rparr>"

section \<open>Properties\<close>

subsection \<open>The arrays follow the corpus\<close>





lemma svc_ragged:
  "svc [\<lparr>span_text = ''a'', span_vector = [1 :: int]\<rparr>,
        \<lparr>span_text = ''b'', span_vector = [1, 2]\<rparr>] = Inl ValueError"
  by (simp add: svc_def np_array_rows_def)




subsection \<open>The context window clamps at the end of the corpus\<close>

lemma drop_take_nth:
  "b \<le> length xs \<Longrightarrow> drop a (take b xs) = map ((!) xs) [a..<b]"
proof (rule nth_equalityI)
  assume b: "b \<le> length xs"
  then show "length (drop a (take b xs)) = length (map ((!) xs) [a..<b])"
    by simp
  fix i
  assume "i < length (drop a (take b xs))"
  with b have i: "i < b - a"
    by simp
  then have "a + i < b"
    by simp
  then show "drop a (take b xs) ! i = map ((!) xs) [a..<b] ! i"
    using b i by (simp add: nth_map_upt)
qed

lemma py_slice_nonneg:
  assumes "0 \<le> lo" and "lo \<le> hi"
  shows "py_slice xs lo hi = map ((!) xs) [nat lo ..< min (nat hi) (length xs)]"
proof -
  let ?n = "length xs"
  have l: "nat (slice_bound (int ?n) lo) = min (nat lo) ?n"
    using assms by (simp add: slice_bound_def)
  have h: "nat (slice_bound (int ?n) hi) = min (nat hi) ?n"
    using assms by (simp add: slice_bound_def)
  have le: "slice_bound (int ?n) lo \<le> slice_bound (int ?n) hi"
    using assms by (simp add: slice_bound_def)
  have nn: "0 \<le> slice_bound (int ?n) lo"
    using assms by (simp add: slice_bound_def)
  have "py_slice xs lo hi
      = take (min (nat hi) ?n - min (nat lo) ?n) (drop (min (nat lo) ?n) xs)"
    using l h le nn by (simp add: py_slice_def Let_def nat_diff_distrib)
  also have "\<dots> = drop (min (nat lo) ?n) (take (min (nat hi) ?n) xs)"
    by (simp add: drop_take)
  also have "\<dots> = map ((!) xs) [min (nat lo) ?n ..< min (nat hi) ?n]"
    by (simp add: drop_take_nth)
  also have "\<dots> = map ((!) xs) [nat lo ..< min (nat hi) ?n]"
    by (cases "nat lo \<le> ?n") (simp_all add: min_def)
  finally show ?thesis .
qed

text \<open>
  C7. For every position \<open>i \<ge> 0\<close>, and so for every position a query returns, also
  one closer than \<open>context_size\<close> to the end of the corpus, the window is the list of
  the sentences with indices \<open>i, i + 1, \<dots>\<close> below both \<open>i + context_size\<close> and the
  size of the corpus, in order. The window is a slice, which is defined for every pair
  of bounds: nothing is raised.
\<close>

theorem context_window_clamps:
  assumes "0 \<le> i"
  shows "context_window sx i
    = map ((!) sx) [nat i ..< min (nat (i + context_size)) (length sx)]"
  using assms by (simp add: context_window_def context_size_def py_slice_nonneg)

theorem context_window_clamps_witness:
  "(0::int) \<le> 2
   \<and> context_window [''a'', ''b'', ''c'', ''d''] 2
     = map ((!) [''a'', ''b'', ''c'', ''d''])
         [nat 2 ..< min (nat (2 + context_size)) (length [''a'', ''b'', ''c'', ''d''])]
   \<and> context_window [''a'', ''b'', ''c'', ''d''] 2 = [''c'', ''d'']"
proof -
  have h: "(0::int) \<le> 2"
    by simp
  have w: "context_window [''a'', ''b'', ''c'', ''d''] 2
    = map ((!) [''a'', ''b'', ''c'', ''d''])
        [nat 2 ..< min (nat (2 + context_size)) (length [''a'', ''b'', ''c'', ''d''])]"
    using context_window_clamps [OF h] .
  have "map ((!) [''a'', ''b'', ''c'', ''d''])
        [nat 2 ..< min (nat (2 + context_size)) (length [''a'', ''b'', ''c'', ''d''])]
      = [''c'', ''d'']"
    by (simp add: context_size_def upt_rec)
  with h w show ?thesis
    by simp
qed

subsection \<open>Word similarity is symmetric\<close>

lemma map2_mul_commute:
  assumes "\<And>a b. f_mul ops a b = f_mul ops b a"
  shows "map2 (f_mul ops) u v = map2 (f_mul ops) v u"
  using assms by (induction u arbitrary: v) (auto simp: zip_Cons1 split: list.splits)

lemma np_multiply_commute:
  assumes "\<And>a b. f_mul ops a b = f_mul ops b a"
  shows "np_multiply ops u v = np_multiply ops v u"
proof -
  have "map2 (f_mul ops) u v = map2 (f_mul ops) v u"
    using assms by (rule map2_mul_commute)
  moreover have "(\<lambda>y. f_mul ops (hd u) y) = (\<lambda>x. f_mul ops x (hd u))"
    using assms by (intro ext)
  moreover have "(\<lambda>y. f_mul ops (hd v) y) = (\<lambda>x. f_mul ops x (hd v))"
    using assms by (intro ext)
  moreover have "length u = 1 \<Longrightarrow> length v = 1 \<Longrightarrow> length u = length v"
    by simp
  ultimately show ?thesis
    unfolding np_multiply_def by auto
qed

lemma cosine_commute:
  assumes "\<And>a b. f_mul ops a b = f_mul ops b a"
  shows "cosine ops u v = cosine ops v u"
proof -
  have m: "np_multiply ops u v = np_multiply ops v u"
    using assms by (rule np_multiply_commute)
  have "f_mul ops (f_average ops (np_square ops u)) (f_average ops (np_square ops v))
      = f_mul ops (f_average ops (np_square ops v)) (f_average ops (np_square ops u))"
    using assms .
  then show ?thesis
    unfolding cosine_def m by (cases "np_multiply ops v u") (simp_all add: Let_def)
qed

lemma cosine_returns:
  "length u = length v \<Longrightarrow> \<exists>d. cosine ops u v = Inr d"
  by (simp add: cosine_def np_multiply_def Let_def)

lemma word_cosine_similarity_returns:
  assumes "vocab model w1 = Some l1" and "vocab model w2 = Some l2"
    and "length (lexeme_vector l1) = length (lexeme_vector l2)"
  shows "\<exists>s. word_cosine_similarity ops w1 w2 model = Inr s"
proof -
  obtain d where "cosine ops (lexeme_vector l1) (lexeme_vector l2) = Inr d"
    using assms(3) cosine_returns by blast
  then show ?thesis
    using assms(1,2) by (simp add: word_cosine_similarity_def)
qed

text \<open>
  C10. \<open>word_cosine_similarity\<close> is symmetric: for two words of the vocabulary whose
  vectors are not zero, \<open>word_cosine_similarity(w1, w2, model)\<close> and
  \<open>word_cosine_similarity(w2, w1, model)\<close> are the same. The only property of the
  arithmetic that the proof needs is that multiplication commutes.
\<close>

theorem word_cosine_similarity_symmetric:
  assumes mul_comm: "\<forall>a b. f_mul ops a b = f_mul ops b a"
    and w1: "vocab model w1 = Some l1"
    and w2: "vocab model w2 = Some l2"
    and nz1: "\<exists>x \<in> set (lexeme_vector l1). x \<noteq> f_zero ops"
    and nz2: "\<exists>x \<in> set (lexeme_vector l2). x \<noteq> f_zero ops"
  shows "word_cosine_similarity ops w1 w2 model = word_cosine_similarity ops w2 w1 model"
proof -
  have "cosine ops (lexeme_vector l1) (lexeme_vector l2)
      = cosine ops (lexeme_vector l2) (lexeme_vector l1)"
    using mul_comm by (intro cosine_commute) simp
  then show ?thesis
    using w1 w2 by (simp add: word_cosine_similarity_def)
qed

theorem word_cosine_similarity_symmetric_witness:
  "(\<forall>a b. f_mul real_ops a b = f_mul real_ops b a)
   \<and> vocab two_words ''farmer'' = Some \<lparr>lexeme_vector = [3, 4]\<rparr>
   \<and> vocab two_words ''framer'' = Some \<lparr>lexeme_vector = [4, 3]\<rparr>
   \<and> (\<exists>x \<in> set (lexeme_vector \<lparr>lexeme_vector = [3, 4 :: real]\<rparr>). x \<noteq> f_zero real_ops)
   \<and> (\<exists>x \<in> set (lexeme_vector \<lparr>lexeme_vector = [4, 3 :: real]\<rparr>). x \<noteq> f_zero real_ops)
   \<and> word_cosine_similarity real_ops ''farmer'' ''framer'' two_words
     = word_cosine_similarity real_ops ''framer'' ''farmer'' two_words"
proof -
  have c: "\<forall>a b. f_mul real_ops a b = f_mul real_ops b a"
    by (simp add: real_ops_def)
  have v1: "vocab two_words ''farmer'' = Some \<lparr>lexeme_vector = [3, 4]\<rparr>"
    by (simp add: two_words_def)
  have v2: "vocab two_words ''framer'' = Some \<lparr>lexeme_vector = [4, 3]\<rparr>"
    by (simp add: two_words_def)
  have n1: "\<exists>x \<in> set (lexeme_vector \<lparr>lexeme_vector = [3, 4 :: real]\<rparr>). x \<noteq> f_zero real_ops"
    by (simp add: real_ops_def)
  have n2: "\<exists>x \<in> set (lexeme_vector \<lparr>lexeme_vector = [4, 3 :: real]\<rparr>). x \<noteq> f_zero real_ops"
    by (simp add: real_ops_def)
  show ?thesis
    using c v1 v2 n1 n2 word_cosine_similarity_symmetric [OF c v1 v2 n1 n2] by blast
qed

end
